theory Spec2Isabelle
  imports Complex_Main "HOL-Library.AList"
begin

section \<open>Data model of \<open>Track.ts\<close>\<close>

text \<open>
  JavaScript numbers are modelled as \<^typ>\<open>real\<close>: the properties below only select
  among the numbers passed in and add them to clock times. An optional parameter or
  field (\<^verbatim>\<open>delay?: number\<close>) is an \<^typ>\<open>'a option\<close>, with \<open>None\<close> for
  \<^verbatim>\<open>undefined\<close>/\<^verbatim>\<open>null\<close>. Objects of the audio graph (gain nodes, audio source
  nodes, destinations) are identified by a number; a new object takes the next unused one.
\<close>

type_synonym node = nat

datatype TrackBeatType = REPEATING | PRECISE | EXCLUDE

datatype TrackEventType = START_PLAYBACK | STOP_PLAYBACK | BEAT | POSITION | SILENCED

datatype TrackSwapType = IN_OUT | OUT_IN | CROSS | CUT

text \<open>
  Modelled from the spec: \<^verbatim>\<open>AudioAdjustmentOptions\<close> is declared in
  \<^verbatim>\<open>automation.ts\<close>, which is not among the sources. The specification gives it as
  \<^verbatim>\<open>{ delay, duration, rampShape, startDelay? }\<close>; \<open>Track.ts\<close> reads its
  \<^verbatim>\<open>delay\<close> only, and treats every field of a caller's value as optional
  (\<^verbatim>\<open>options?.delay == undefined\<close>). The ramp shape is an enumeration whose members
  are not given; it is kept as its string value.
\<close>

type_synonym AudioRampType = string

record AudioAdjustmentOptions =
  ramp :: "AudioRampType option"
  delay :: "real option"
  duration :: "real option"
  startDelay :: "real option"

text \<open>\<^verbatim>\<open>Required<AudioAdjustmentOptions>\<close>: the merged form, as \<^verbatim>\<open>buildOptions\<close> returns it.\<close>

record RequiredAdjustment =
  adj_ramp :: AudioRampType
  adj_delay :: real
  adj_duration :: real
  adj_startDelay :: "real option"

text \<open>The merged form of \<^verbatim>\<open>TrackSwapOptions\<close>: the adjustment and the two swap fields.\<close>

record RequiredSwap = RequiredAdjustment +
  swap :: "TrackSwapType option"
  swapDelay :: real

text \<open>\<^verbatim>\<open>TrackSwapOptions | TrackSwapAdvancedOptions\<close>, the argument of \<^verbatim>\<open>swap\<close>.\<close>

datatype swap_argument =
    Swap_options RequiredSwap
  | Swap_advanced RequiredAdjustment RequiredAdjustment

text \<open>
  The constants \<^verbatim>\<open>defaults.startImmediate\<close> and \<^verbatim>\<open>defaults.trackSwapDefault\<close> are
  declared in \<^verbatim>\<open>defaults.ts\<close>, which is not among the sources: they are parameters
  of the model.
\<close>

record defaults =
  startImmediate :: RequiredAdjustment
  trackSwapDefault :: RequiredSwap

text \<open>
  Modelled from the spec: \<^verbatim>\<open>buildOptions\<close> (the default export of
  \<^verbatim>\<open>defaults.ts\<close>, not among the sources) is the specification's AdjustmentMerger:
  it "merges a caller-supplied partial parameter set with component-level defaults".
  A field the caller gives is taken, any other field keeps the default; the result is a
  fresh value, so that changing it later leaves the defaults as they were.
\<close>

definition buildOptions ::
  "AudioAdjustmentOptions option \<Rightarrow> 'a RequiredAdjustment_scheme \<Rightarrow> 'a RequiredAdjustment_scheme"
where
  "buildOptions options dflt =
     (case options of
        None \<Rightarrow> dflt
      | Some opts \<Rightarrow>
          dflt\<lparr>adj_ramp := (case ramp opts of None \<Rightarrow> adj_ramp dflt | Some r \<Rightarrow> r),
               adj_delay := (case delay opts of None \<Rightarrow> adj_delay dflt | Some d \<Rightarrow> d),
               adj_duration := (case duration opts of None \<Rightarrow> adj_duration dflt | Some d \<Rightarrow> d),
               adj_startDelay := (case startDelay opts of None \<Rightarrow> adj_startDelay dflt | Some d \<Rightarrow> Some d)\<rparr>)"

text \<open>The expression \<^verbatim>\<open>options?.delay\<close>.\<close>

definition options_delay :: "AudioAdjustmentOptions option \<Rightarrow> real option" where
  "options_delay options = (case options of None \<Rightarrow> None | Some opts \<Rightarrow> delay opts)"

subsection \<open>Beats\<close>

text \<open>
  A \<^verbatim>\<open>TrackBeat\<close> has two mutable fields and a method \<^verbatim>\<open>cancel\<close>. The method is a
  closure stored in the object; it is modelled by what a call does to the two fields.
\<close>

record TrackBeat =
  time :: real
  isCancelled :: bool
  cancel :: "real \<times> bool \<Rightarrow> real \<times> bool"

text \<open>The call \<^verbatim>\<open>beat.cancel()\<close>.\<close>

definition TrackBeat_cancel :: "TrackBeat \<Rightarrow> TrackBeat" where
  "TrackBeat_cancel beat =
     (case cancel beat (time beat, isCancelled beat) of
        (t, c) \<Rightarrow> beat\<lparr>time := t, isCancelled := c\<rparr>)"

subsection \<open>Effects\<close>

text \<open>
  A track that is passed as an argument (\<^verbatim>\<open>syncPlayTo(track, ...)\<close>) is named by its
  name; a callback (\<^verbatim>\<open>Promise<any>\<close>) by a number.
\<close>

type_synonym track_ref = string
type_synonym callback = nat

text \<open>
  What the code writes to the console: one constructor for each message, holding the
  values the message is built from.
\<close>

datatype message =
    Stub_stop "real option" "AudioAdjustmentOptions option"
  | Stub_playSource string "AudioAdjustmentOptions option"
  | Stub_loadSource string
  | Stub_swap "swap_argument option"
  | Stub_createBeat TrackBeatType real "real option"
  | Stub_clearBeats
  | Stub_syncPlayTo track_ref "AudioAdjustmentOptions option"
  | Stub_syncStopTo track_ref "AudioAdjustmentOptions option"
  | Stub_listenFor TrackEventType callback
  | No_source_loaded

text \<open>
  The calls the code makes on the audio graph and on the console, in the order it
  makes them. The audio source node, the gain node and \<^verbatim>\<open>automation\<close> are outside
  \<open>Track.ts\<close>; a call on them is recorded and has no other meaning here.
\<close>

datatype effect =
    Gain_created node
  | Node_connect node node
  | Node_disconnect node
  | Source_created node node
  | Source_cloned node node
  | Source_load node string
  | Source_start node real
  | Gain_set node real
  | Automation node real RequiredAdjustment
  | Console_log message
  | Console_warn message

text \<open>
  The audio context and what has happened so far: the clock
  (\<^verbatim>\<open>audioContext.currentTime\<close>), the next unused object number, and the effects.
\<close>

record world =
  currentTime :: real
  next_node :: nat
  effects :: "effect list"

definition emit :: "effect \<Rightarrow> world \<Rightarrow> world" where
  "emit e w = w\<lparr>effects := effects w @ [e]\<rparr>"

definition fresh_node :: "world \<Rightarrow> node \<times> world" where
  "fresh_node w = (next_node w, w\<lparr>next_node := Suc (next_node w)\<rparr>)"

text \<open>\<^verbatim>\<open>audioContext.createGain()\<close>\<close>

definition createGain :: "world \<Rightarrow> node \<times> world" where
  "createGain w = (case fresh_node w of (g, w1) \<Rightarrow> (g, emit (Gain_created g) w1))"

text \<open>\<^verbatim>\<open>new AudioSourceNode(audioContext, destination)\<close>\<close>

definition AudioSourceNode_new :: "node \<Rightarrow> world \<Rightarrow> node \<times> world" where
  "AudioSourceNode_new dest w =
     (case fresh_node w of (s, w1) \<Rightarrow> (s, emit (Source_created s dest) w1))"

text \<open>\<^verbatim>\<open>source.clone()\<close>\<close>

definition AudioSourceNode_clone :: "node \<Rightarrow> world \<Rightarrow> node \<times> world" where
  "AudioSourceNode_clone s w =
     (case fresh_node w of (c, w1) \<Rightarrow> (c, emit (Source_cloned s c) w1))"

section \<open>\<open>TrackSingle\<close>\<close>

text \<open>
  The fields of the class. \<open>gain\<close> is \<^verbatim>\<open>gainNode.gain.value\<close>: the gain node is
  created by the track and no other object holds it. A new gain node has the value 1.
\<close>

record TrackSingle =
  name :: string
  destination :: node
  source :: node
  gainNode :: node
  gain :: real
  loadedSource :: "node option"
  playingSource :: "node option"
  isLoadSourceCalled :: bool

text \<open>The constructor.\<close>

definition TrackSingle_new :: "string \<Rightarrow> node \<Rightarrow> node \<Rightarrow> world \<Rightarrow> TrackSingle \<times> world" where
  "TrackSingle_new nm dest src w =
     (case createGain w of
        (g, w1) \<Rightarrow>
          (\<lparr>name = nm, destination = dest, source = src, gainNode = g, gain = 1,
            loadedSource = Some src, playingSource = None, isLoadSourceCalled = False\<rparr>,
           emit (Node_connect g dest) w1))"

definition TrackSingle_stop ::
  "real option \<Rightarrow> AudioAdjustmentOptions option \<Rightarrow> TrackSingle \<Rightarrow> world \<Rightarrow> TrackSingle \<times> world"
where
  "TrackSingle_stop dly options this w = (this, emit (Console_log (Stub_stop dly options)) w)"

definition TrackSingle_swap ::
  "swap_argument option \<Rightarrow> TrackSingle \<Rightarrow> world \<Rightarrow> TrackSingle \<times> world"
where
  "TrackSingle_swap options this w = (this, emit (Console_log (Stub_swap options)) w)"

text \<open>
  \<^verbatim>\<open>start\<close>. The three \<^verbatim>\<open>if\<close> statements of the method are \<open>start_clone\<close> (the
  implicit load of a copy), the test of \<open>start_swaps\<close> with \<open>start_swap\<close> as its body,
  and \<open>start_loaded\<close>; the warning is what remains.
\<close>

definition start_clone :: "TrackSingle \<Rightarrow> world \<Rightarrow> TrackSingle \<times> world" where
  "start_clone this w =
     (case playingSource this of
        None \<Rightarrow> (this, w)
      | Some p \<Rightarrow>
          (case loadedSource this of
             Some l \<Rightarrow> (this, w)
           | None \<Rightarrow>
               (case AudioSourceNode_clone p w of
                  (c, w1) \<Rightarrow> (this\<lparr>loadedSource := Some c, isLoadSourceCalled := True\<rparr>, w1))))"

definition start_swaps :: "TrackSingle \<Rightarrow> bool" where
  "start_swaps this = (isLoadSourceCalled this \<and> loadedSource this \<noteq> None)"

definition start_swap ::
  "defaults \<Rightarrow> real option \<Rightarrow> AudioAdjustmentOptions option \<Rightarrow> real option \<Rightarrow>
   TrackSingle \<Rightarrow> world \<Rightarrow> TrackSingle \<times> world"
where
  "start_swap D dly options dur this w =
     (let swapOptions = buildOptions options (trackSwapDefault D) in
      case TrackSingle_swap (Some (Swap_options swapOptions)) this w of
        (this1, w1) \<Rightarrow>
          (case dur of
             None \<Rightarrow> (this1, w1)
           | Some d \<Rightarrow>
               TrackSingle_stop
                 (Some ((case options_delay options of
                           Some od \<Rightarrow> od
                         | None \<Rightarrow> (case dly of Some pd \<Rightarrow> pd | None \<Rightarrow> 0)) + d))
                 None this1 w1))"

text \<open>
  The value of \<^verbatim>\<open>startOptions\<close> when playback is scheduled: the caller's options
  merged with \<^verbatim>\<open>defaults.startImmediate\<close>, and the positional delay added to its
  \<^verbatim>\<open>delay\<close> when the caller gave one and gave no \<^verbatim>\<open>options.delay\<close>.
\<close>

definition start_options ::
  "defaults \<Rightarrow> real option \<Rightarrow> AudioAdjustmentOptions option \<Rightarrow> RequiredAdjustment"
where
  "start_options D dly options =
     (let built = buildOptions options (startImmediate D) in
      case dly of
        None \<Rightarrow> built
      | Some pd \<Rightarrow>
          (case options_delay options of
             None \<Rightarrow> built\<lparr>adj_delay := adj_delay built + pd\<rparr>
           | Some od \<Rightarrow> built))"

definition start_loaded ::
  "defaults \<Rightarrow> real option \<Rightarrow> AudioAdjustmentOptions option \<Rightarrow> real option \<Rightarrow>
   node \<Rightarrow> TrackSingle \<Rightarrow> world \<Rightarrow> TrackSingle \<times> world"
where
  "start_loaded D dly options dur src this w =
     (let w1 = emit (Node_disconnect src) w;
          this1 = this\<lparr>playingSource := Some src\<rparr>;
          w2 = emit (Node_connect src (gainNode this1)) w1;
          this2 = this1\<lparr>loadedSource := None\<rparr>;
          startOptions = start_options D dly options;
          currentGain = gain this2;
          this3 = this2\<lparr>gain := 0\<rparr>;
          w3 = emit (Gain_set (gainNode this3) 0) w2;
          w4 = emit (Source_start src (currentTime w3 + adj_delay startOptions)) w3;
          w5 = emit (Automation (gainNode this3) currentGain startOptions) w4
      in case dur of
           None \<Rightarrow> (this3, w5)
         | Some d \<Rightarrow> TrackSingle_stop (Some (adj_delay startOptions + d)) None this3 w5)"

definition TrackSingle_start ::
  "defaults \<Rightarrow> real option \<Rightarrow> AudioAdjustmentOptions option \<Rightarrow> real option \<Rightarrow>
   TrackSingle \<Rightarrow> world \<Rightarrow> TrackSingle \<times> world"
where
  "TrackSingle_start D dly options dur this w =
     (case start_clone this w of
        (this1, w1) \<Rightarrow>
          if start_swaps this1 then start_swap D dly options dur this1 w1
          else
            (case loadedSource this1 of
               Some src \<Rightarrow> start_loaded D dly options dur src this1 w1
             | None \<Rightarrow> (this1, emit (Console_warn No_source_loaded) w1)))"

definition TrackSingle_loadSource :: "string \<Rightarrow> TrackSingle \<Rightarrow> world \<Rightarrow> node \<times> TrackSingle \<times> world" where
  "TrackSingle_loadSource path this w =
     (case AudioSourceNode_new (gainNode this) (emit (Console_log (Stub_loadSource path)) w) of
        (s, w1) \<Rightarrow> (s, this, w1))"

definition TrackSingle_playSource ::
  "defaults \<Rightarrow> string \<Rightarrow> AudioAdjustmentOptions option \<Rightarrow> TrackSingle \<Rightarrow> world \<Rightarrow>
   node \<times> TrackSingle \<times> world"
where
  "TrackSingle_playSource D path options this w =
     (case TrackSingle_loadSource path this (emit (Console_log (Stub_playSource path options)) w) of
        (audioSource, this1, w1) \<Rightarrow>
          (case TrackSingle_start D (Some 0) options None this1 w1 of
             (this2, w2) \<Rightarrow> (audioSource, this2, w2)))"

definition TrackSingle_createBeat ::
  "TrackBeatType \<Rightarrow> real \<Rightarrow> real option \<Rightarrow> TrackSingle \<Rightarrow> world \<Rightarrow> TrackBeat \<times> TrackSingle \<times> world"
where
  "TrackSingle_createBeat type origin period this w =
     (\<lparr>time = 0, isCancelled = False, cancel = (\<lambda>fields. fields)\<rparr>, this,
      emit (Console_log (Stub_createBeat type origin period)) w)"

definition TrackSingle_clearBeats :: "TrackSingle \<Rightarrow> world \<Rightarrow> TrackSingle \<times> world" where
  "TrackSingle_clearBeats this w = (this, emit (Console_log Stub_clearBeats) w)"

definition TrackSingle_syncPlayTo ::
  "track_ref \<Rightarrow> AudioAdjustmentOptions option \<Rightarrow> TrackSingle \<Rightarrow> world \<Rightarrow> TrackSingle \<times> world"
where
  "TrackSingle_syncPlayTo track options this w =
     (this, emit (Console_log (Stub_syncPlayTo track options)) w)"

definition TrackSingle_syncStopTo ::
  "track_ref \<Rightarrow> AudioAdjustmentOptions option \<Rightarrow> TrackSingle \<Rightarrow> world \<Rightarrow> TrackSingle \<times> world"
where
  "TrackSingle_syncStopTo track options this w =
     (this, emit (Console_log (Stub_syncStopTo track options)) w)"

definition TrackSingle_listenFor ::
  "TrackEventType \<Rightarrow> callback \<Rightarrow> TrackSingle \<Rightarrow> world \<Rightarrow> TrackSingle \<times> world"
where
  "TrackSingle_listenFor type cb this w = (this, emit (Console_log (Stub_listenFor type cb)) w)"


section \<open>\<open>TrackGroup\<close>\<close>

subsection \<open>The dictionary of tracks\<close>

text \<open>
  The field \<^verbatim>\<open>tracks\<close> is a plain object, \<^verbatim>\<open>{}\<close>, used as a dictionary from names to
  tracks. What the code does with it depends on two things. The first is the list of its
  own properties, in the order in which JavaScript lists them (\<^verbatim>\<open>Object.keys\<close>,
  \<^verbatim>\<open>for ... in\<close>): the names that are array indices in ascending numeric order, then
  the other names in the order of their creation. The second is its prototype:
  \<^verbatim>\<open>Object.prototype\<close> at first (\<open>None\<close>), and a track once
  \<^verbatim>\<open>tracks['__proto__'] = track\<close> has run, since that assignment calls the setter that
  \<^verbatim>\<open>Object.prototype\<close> provides and adds no property.
\<close>

record track_dict =
  own :: "(string \<times> TrackSingle) list"
  proto :: "TrackSingle option"

definition empty_dict :: track_dict where
  "empty_dict = \<lparr>own = [], proto = None\<rparr>"

text \<open>
  An array index is the decimal numeral, with no leading zero, of a number below
  \<open>2\<^sup>3\<^sup>2 - 1\<close>.
\<close>

definition is_digit :: "char \<Rightarrow> bool" where
  "is_digit c = (48 \<le> (of_char c :: nat) \<and> (of_char c :: nat) \<le> 57)"

definition decimal_value :: "string \<Rightarrow> nat" where
  "decimal_value k = foldl (\<lambda>n c. 10 * n + (of_char c - 48)) 0 k"

definition is_array_index :: "string \<Rightarrow> bool" where
  "is_array_index k =
     (case k of
        [] \<Rightarrow> False
      | c # cs \<Rightarrow>
          list_all is_digit k \<and> (if c = CHR ''0'' then cs = [] else True) \<and>
          decimal_value k < 4294967295)"

text \<open>Whether a new property \<open>k\<close> is listed before the property \<open>k'\<close>.\<close>

definition listed_before :: "string \<Rightarrow> string \<Rightarrow> bool" where
  "listed_before k k' =
     (if is_array_index k
      then (if is_array_index k' then decimal_value k < decimal_value k' else True)
      else False)"

fun insert_key :: "string \<Rightarrow> 'v \<Rightarrow> (string \<times> 'v) list \<Rightarrow> (string \<times> 'v) list" where
  "insert_key k v [] = [(k, v)]"
| "insert_key k v ((k', v') # kvs) =
     (if listed_before k k' then (k, v) # (k', v') # kvs else (k', v') # insert_key k v kvs)"

text \<open>
  What a method of the group can throw: the two errors of \<^verbatim>\<open>newTrack\<close>, and a
  \<^verbatim>\<open>TypeError\<close>.
\<close>

datatype error = Name_of_group string | Name_exists string | TypeError

text \<open>
  The assignment \<^verbatim>\<open>tracks[k] = v\<close>, for a track \<open>v\<close>. The name \<^verbatim>\<open>__proto__\<close> sets
  the prototype. A name that is an own property keeps its place and takes the new value.
  Any other name becomes a new own property; the one exception is \<^verbatim>\<open>_time\<close> when the
  prototype is a track: \<open>TrackSingle\<close> declares it as a getter with no setter, and the
  assignment, in the strict mode of a module, throws.
\<close>

definition dict_assign :: "string \<Rightarrow> TrackSingle \<Rightarrow> track_dict \<Rightarrow> error + track_dict" where
  "dict_assign k v d =
     (if k = ''__proto__'' then Inr (d\<lparr>proto := Some v\<rparr>)
      else if k \<in> set (map fst (own d)) then Inr (d\<lparr>own := AList.update k v (own d)\<rparr>)
      else if k = ''_time'' \<and> proto d \<noteq> None then Inl TypeError
      else Inr (d\<lparr>own := insert_key k v (own d)\<rparr>))"

text \<open>
  The value of \<^verbatim>\<open>tracks[k]\<close>: a track, some other value, or \<^verbatim>\<open>undefined\<close>. An own
  property holds a track. Any other name is looked up in the prototype. In
  \<^verbatim>\<open>Object.prototype\<close> that finds its members, none of them a track. When the
  prototype is a track, \<^verbatim>\<open>__proto__\<close> is that track, and the other names find the
  fields of the track (of which \<^verbatim>\<open>loadedSource\<close> and \<^verbatim>\<open>playingSource\<close> may be
  undefined), the members of the class \<open>TrackSingle\<close>, and those of
  \<^verbatim>\<open>Object.prototype\<close>.
\<close>

datatype property = Track_value TrackSingle | Other_value | Undefined_value

definition Object_prototype_names :: "string list" where
  "Object_prototype_names =
     [''constructor'', ''__defineGetter__'', ''__defineSetter__'', ''hasOwnProperty'',
      ''__lookupGetter__'', ''__lookupSetter__'', ''isPrototypeOf'', ''propertyIsEnumerable'',
      ''toString'', ''valueOf'', ''__proto__'', ''toLocaleString'']"

definition TrackSingle_field_names :: "string list" where
  "TrackSingle_field_names =
     [''name'', ''audioContext'', ''destination'', ''source'', ''gainNode'',
      ''isLoadSourceCalled'']"

definition TrackSingle_member_names :: "string list" where
  "TrackSingle_member_names =
     [''constructor'', ''toString'', ''start'', ''stop'', ''playSource'', ''loadSource'',
      ''swap'', ''volume'', ''loop'', ''jump'', ''createBeat'', ''clearBeats'', ''syncPlayTo'',
      ''syncStopTo'', ''listenFor'', ''_time'']"

definition inherited_from_track :: "string \<Rightarrow> TrackSingle \<Rightarrow> property" where
  "inherited_from_track k p =
     (if k = ''loadedSource''
      then (case loadedSource p of None \<Rightarrow> Undefined_value | Some s \<Rightarrow> Other_value)
      else if k = ''playingSource''
      then (case playingSource p of None \<Rightarrow> Undefined_value | Some s \<Rightarrow> Other_value)
      else if k \<in> set TrackSingle_field_names then Other_value
      else if k \<in> set TrackSingle_member_names then Other_value
      else if k \<in> set Object_prototype_names then Other_value
      else Undefined_value)"

definition get_property :: "string \<Rightarrow> track_dict \<Rightarrow> property" where
  "get_property k d =
     (case map_of (own d) k of
        Some t \<Rightarrow> Track_value t
      | None \<Rightarrow>
          (case proto d of
             None \<Rightarrow> if k \<in> set Object_prototype_names then Other_value else Undefined_value
           | Some p \<Rightarrow> if k = ''__proto__'' then Track_value p else inherited_from_track k p))"

text \<open>
  Tracks are objects, and a method that changes the track found under a name changes it
  where it is: in the own property of that name, or in the prototype.
\<close>

definition dict_replace :: "string \<Rightarrow> TrackSingle \<Rightarrow> track_dict \<Rightarrow> track_dict" where
  "dict_replace k v d =
     (if k \<in> set (map fst (own d)) then d\<lparr>own := AList.update k v (own d)\<rparr>
      else if k = ''__proto__'' then (case proto d of None \<Rightarrow> d | Some p \<Rightarrow> d\<lparr>proto := Some v\<rparr>)
      else d)"

text \<open>
  The loop \<^verbatim>\<open>for (const t in this.tracks) { this.tracks[t]?.m(...) }\<close>. It visits the
  own properties in their order and calls the method on each track. When the prototype is
  a track, the loop goes on with the enumerable fields that the dictionary inherits from
  that track; the first of them, \<^verbatim>\<open>name\<close>, holds a string, which has no such method,
  and the call throws a \<^verbatim>\<open>TypeError\<close>. (Were \<^verbatim>\<open>name\<close> the name of a member, the
  next field would be reached instead; the fields \<^verbatim>\<open>audioContext\<close> and
  \<^verbatim>\<open>destination\<close> have no such method either.)
\<close>

fun visit_own ::
  "(TrackSingle \<Rightarrow> world \<Rightarrow> TrackSingle \<times> world) \<Rightarrow>
   (string \<times> TrackSingle) list \<Rightarrow> world \<Rightarrow> (string \<times> TrackSingle) list \<times> world"
where
  "visit_own m [] w = ([], w)"
| "visit_own m ((n, t) # ts) w =
     (case m t w of
        (t1, w1) \<Rightarrow>
          (case visit_own m ts w1 of
             (ts1, w2) \<Rightarrow> ((n, t1) # ts1, w2)))"

definition for_each_track ::
  "(TrackSingle \<Rightarrow> world \<Rightarrow> TrackSingle \<times> world) \<Rightarrow> track_dict \<Rightarrow> world \<Rightarrow>
   (error + unit) \<times> track_dict \<times> world"
where
  "for_each_track m d w =
     (case visit_own m (own d) w of
        (ts, w1) \<Rightarrow>
          (case proto d of
             None \<Rightarrow> (Inr (), d\<lparr>own := ts\<rparr>, w1)
           | Some p \<Rightarrow> (Inl TypeError, d\<lparr>own := ts\<rparr>, w1)))"

subsection \<open>The class\<close>

record TrackGroup =
  group_name :: string
  group_destination :: node
  group_source :: node
  group_gainNode :: node
  tracks :: track_dict

text \<open>
  The constructor. The assignment to the empty dictionary cannot throw; were it to, the
  model keeps the dictionary empty.
\<close>

definition TrackGroup_new :: "string \<Rightarrow> node \<Rightarrow> node \<Rightarrow> world \<Rightarrow> TrackGroup \<times> world" where
  "TrackGroup_new nm dest src w =
     (case createGain w of
        (g, w1) \<Rightarrow>
          (case TrackSingle_new nm g src (emit (Node_connect g dest) w1) of
             (new_track, w2) \<Rightarrow>
               (\<lparr>group_name = nm, group_destination = dest, group_source = src,
                 group_gainNode = g,
                 tracks = (case dict_assign nm new_track empty_dict of
                             Inl e \<Rightarrow> empty_dict
                           | Inr d \<Rightarrow> d)\<rparr>, w2)))"

definition track :: "string \<Rightarrow> TrackGroup \<Rightarrow> property" where
  "track nm this = get_property nm (tracks this)"

definition primaryTrack :: "TrackGroup \<Rightarrow> property" where
  "primaryTrack this = get_property (group_name this) (tracks this)"

text \<open>
  \<^verbatim>\<open>newTrack\<close>. A \<^verbatim>\<open>throw\<close> leaves the group and the world as they are at that
  point, so both are returned beside the error. An empty \<^verbatim>\<open>path\<close> is falsy, as a
  missing one.
\<close>

definition TrackGroup_newTrack ::
  "string \<Rightarrow> string option \<Rightarrow> node option \<Rightarrow> TrackGroup \<Rightarrow> world \<Rightarrow>
   (error + TrackSingle) \<times> TrackGroup \<times> world"
where
  "TrackGroup_newTrack nm path src this w =
     (if nm = group_name this then (Inl (Name_of_group nm), this, w)
      else if nm \<in> set (map fst (own (tracks this))) then (Inl (Name_exists nm), this, w)
      else
        (case (case src of
                 Some s \<Rightarrow> (s, w)
               | None \<Rightarrow>
                   (case AudioSourceNode_new (group_gainNode this) w of
                      (s, w1) \<Rightarrow>
                        (case path of
                           None \<Rightarrow> (s, w1)
                         | Some p \<Rightarrow> if p = [] then (s, w1) else (s, emit (Source_load s p) w1)))) of
           (audioSource, w2) \<Rightarrow>
             (case TrackSingle_new nm (group_gainNode this) audioSource w2 of
                (new_track, w3) \<Rightarrow>
                  (case dict_assign nm new_track (tracks this) of
                     Inl e \<Rightarrow> (Inl e, this, w3)
                   | Inr d \<Rightarrow> (Inr new_track, this\<lparr>tracks := d\<rparr>, w3)))))"

text \<open>The methods that loop over the tracks.\<close>

definition TrackGroup_start ::
  "defaults \<Rightarrow> real option \<Rightarrow> AudioAdjustmentOptions option \<Rightarrow> real option \<Rightarrow>
   TrackGroup \<Rightarrow> world \<Rightarrow> (error + unit) \<times> TrackGroup \<times> world"
where
  "TrackGroup_start D dly options dur this w =
     (case for_each_track (TrackSingle_start D dly options dur) (tracks this) w of
        (r, d, w1) \<Rightarrow> (r, this\<lparr>tracks := d\<rparr>, w1))"

definition TrackGroup_stop ::
  "real option \<Rightarrow> AudioAdjustmentOptions option \<Rightarrow> TrackGroup \<Rightarrow> world \<Rightarrow>
   (error + unit) \<times> TrackGroup \<times> world"
where
  "TrackGroup_stop dly options this w =
     (case for_each_track (TrackSingle_stop dly options) (tracks this) w of
        (r, d, w1) \<Rightarrow> (r, this\<lparr>tracks := d\<rparr>, w1))"

definition TrackGroup_clearBeats :: "TrackGroup \<Rightarrow> world \<Rightarrow> (error + unit) \<times> TrackGroup \<times> world" where
  "TrackGroup_clearBeats this w =
     (case for_each_track TrackSingle_clearBeats (tracks this) w of
        (r, d, w1) \<Rightarrow> (r, this\<lparr>tracks := d\<rparr>, w1))"

definition TrackGroup_syncPlayTo ::
  "track_ref \<Rightarrow> AudioAdjustmentOptions option \<Rightarrow> TrackGroup \<Rightarrow> world \<Rightarrow>
   (error + unit) \<times> TrackGroup \<times> world"
where
  "TrackGroup_syncPlayTo target options this w =
     (case for_each_track (TrackSingle_syncPlayTo target options) (tracks this) w of
        (r, d, w1) \<Rightarrow> (r, this\<lparr>tracks := d\<rparr>, w1))"

definition TrackGroup_syncStopTo ::
  "track_ref \<Rightarrow> AudioAdjustmentOptions option \<Rightarrow> TrackGroup \<Rightarrow> world \<Rightarrow>
   (error + unit) \<times> TrackGroup \<times> world"
where
  "TrackGroup_syncStopTo target options this w =
     (case for_each_track (TrackSingle_syncStopTo target options) (tracks this) w of
        (r, d, w1) \<Rightarrow> (r, this\<lparr>tracks := d\<rparr>, w1))"

text \<open>
  The methods that act on the primary track, \<^verbatim>\<open>this.primaryTrack().m(...)\<close>. When
  \<^verbatim>\<open>primaryTrack()\<close> is not a track, it is \<^verbatim>\<open>undefined\<close> or a value that has no
  method \<open>m\<close>, and the call throws a \<^verbatim>\<open>TypeError\<close>.
\<close>

definition TrackGroup_swap ::
  "swap_argument option \<Rightarrow> TrackGroup \<Rightarrow> world \<Rightarrow> (error + TrackSingle) \<times> TrackGroup \<times> world"
where
  "TrackGroup_swap options this w =
     (case primaryTrack this of
        Track_value t \<Rightarrow>
          (case TrackSingle_swap options t w of
             (t1, w1) \<Rightarrow>
               (Inr t1, this\<lparr>tracks := dict_replace (group_name this) t1 (tracks this)\<rparr>, w1))
      | Other_value \<Rightarrow> (Inl TypeError, this, w)
      | Undefined_value \<Rightarrow> (Inl TypeError, this, w))"

definition TrackGroup_loadSource ::
  "string \<Rightarrow> TrackGroup \<Rightarrow> world \<Rightarrow> (error + node) \<times> TrackGroup \<times> world"
where
  "TrackGroup_loadSource path this w =
     (case primaryTrack this of
        Track_value t \<Rightarrow>
          (case TrackSingle_loadSource path t w of
             (s, t1, w1) \<Rightarrow>
               (Inr s, this\<lparr>tracks := dict_replace (group_name this) t1 (tracks this)\<rparr>, w1))
      | Other_value \<Rightarrow> (Inl TypeError, this, w)
      | Undefined_value \<Rightarrow> (Inl TypeError, this, w))"

definition TrackGroup_playSource ::
  "defaults \<Rightarrow> string \<Rightarrow> AudioAdjustmentOptions option \<Rightarrow> TrackGroup \<Rightarrow> world \<Rightarrow>
   (error + node) \<times> TrackGroup \<times> world"
where
  "TrackGroup_playSource D path options this w =
     (case primaryTrack this of
        Track_value t \<Rightarrow>
          (case TrackSingle_playSource D path options t w of
             (s, t1, w1) \<Rightarrow>
               (Inr s, this\<lparr>tracks := dict_replace (group_name this) t1 (tracks this)\<rparr>, w1))
      | Other_value \<Rightarrow> (Inl TypeError, this, w)
      | Undefined_value \<Rightarrow> (Inl TypeError, this, w))"

definition TrackGroup_createBeat ::
  "TrackBeatType \<Rightarrow> real \<Rightarrow> real option \<Rightarrow> TrackGroup \<Rightarrow> world \<Rightarrow>
   (error + TrackBeat) \<times> TrackGroup \<times> world"
where
  "TrackGroup_createBeat type origin period this w =
     (case primaryTrack this of
        Track_value t \<Rightarrow>
          (case TrackSingle_createBeat type origin period t w of
             (b, t1, w1) \<Rightarrow>
               (Inr b, this\<lparr>tracks := dict_replace (group_name this) t1 (tracks this)\<rparr>, w1))
      | Other_value \<Rightarrow> (Inl TypeError, this, w)
      | Undefined_value \<Rightarrow> (Inl TypeError, this, w))"

definition TrackGroup_listenFor ::
  "TrackEventType \<Rightarrow> callback \<Rightarrow> TrackGroup \<Rightarrow> world \<Rightarrow> (error + unit) \<times> TrackGroup \<times> world"
where
  "TrackGroup_listenFor type cb this w =
     (case primaryTrack this of
        Track_value t \<Rightarrow>
          (case TrackSingle_listenFor type cb t w of
             (t1, w1) \<Rightarrow>
               (Inr (), this\<lparr>tracks := dict_replace (group_name this) t1 (tracks this)\<rparr>, w1))
      | Other_value \<Rightarrow> (Inl TypeError, this, w)
      | Undefined_value \<Rightarrow> (Inl TypeError, this, w))"

section \<open>Vocabulary of the specification\<close>

text \<open>
  The effective delay in the specification's words:
  \<^verbatim>\<open>options.delay ?? delay ?? 0\<close>.
\<close>

definition effective_delay :: "real option \<Rightarrow> AudioAdjustmentOptions option \<Rightarrow> real" where
  "effective_delay dly options =
     (case options_delay options of
        Some od \<Rightarrow> od
      | None \<Rightarrow> (case dly of Some pd \<Rightarrow> pd | None \<Rightarrow> 0))"

text \<open>The effects that a call has added to the world.\<close>

definition emitted :: "world \<Rightarrow> world \<Rightarrow> effect list" where
  "emitted w w' = drop (length (effects w)) (effects w')"

text \<open>
  Three lists of effects, to state what \<^verbatim>\<open>start\<close> does: the stop that follows when
  a duration is given (\<^verbatim>\<open>stop\<close> writes one line), the swap with the stop that follows
  it, and the effects of starting a staged source directly.
\<close>

definition stop_effects :: "real \<Rightarrow> real option \<Rightarrow> effect list" where
  "stop_effects t0 dur =
     (case dur of None \<Rightarrow> [] | Some d \<Rightarrow> [Console_log (Stub_stop (Some (t0 + d)) None)])"

definition swap_effects ::
  "defaults \<Rightarrow> real option \<Rightarrow> AudioAdjustmentOptions option \<Rightarrow> real option \<Rightarrow> effect list"
where
  "swap_effects D dly options dur =
     Console_log (Stub_swap (Some (Swap_options (buildOptions options (trackSwapDefault D)))))
       # stop_effects (effective_delay dly options) dur"

definition direct_effects ::
  "defaults \<Rightarrow> real option \<Rightarrow> AudioAdjustmentOptions option \<Rightarrow> real option \<Rightarrow>
   node \<Rightarrow> node \<Rightarrow> real \<Rightarrow> real \<Rightarrow> effect list"
where
  "direct_effects D dly options dur src g level now =
     [Node_disconnect src, Node_connect src g, Gain_set g 0,
      Source_start src (now + adj_delay (start_options D dly options)),
      Automation g level (start_options D dly options)]
     @ stop_effects (adj_delay (start_options D dly options)) dur"

text \<open>Whether an effect is the line that \<^verbatim>\<open>swap\<close> writes.\<close>

fun is_swap_log :: "effect \<Rightarrow> bool" where
  "is_swap_log (Console_log (Stub_swap options)) = True"
| "is_swap_log e = False"

subsection \<open>Examples\<close>

text \<open>
  Values for the examples: defaults whose immediate start has no delay, a context at
  clock time 10 in which the objects 0 (a destination) and 1 (an audio source) exist,
  and the track that the constructor makes there.
\<close>

definition example_defaults :: defaults where
  "example_defaults =
     \<lparr>startImmediate =
        \<lparr>adj_ramp = ''linear'', adj_delay = 0, adj_duration = 0, adj_startDelay = None\<rparr>,
      trackSwapDefault =
        \<lparr>adj_ramp = ''linear'', adj_delay = 0, adj_duration = 1, adj_startDelay = None,
         swap = Some OUT_IN, swapDelay = 0\<rparr>\<rparr>"

definition example_world :: world where
  "example_world = \<lparr>currentTime = 10, next_node = 2, effects = []\<rparr>"

definition example_track :: TrackSingle where
  "example_track = fst (TrackSingle_new ''music'' 0 1 example_world)"

definition example_world1 :: world where
  "example_world1 = snd (TrackSingle_new ''music'' 0 1 example_world)"

definition delay_2 :: AudioAdjustmentOptions where
  "delay_2 = \<lparr>ramp = None, delay = Some 2, duration = None, startDelay = None\<rparr>"

text \<open>Whether an effect is a warning on the console.\<close>

fun is_warning :: "effect \<Rightarrow> bool" where
  "is_warning (Console_warn m) = True"
| "is_warning e = False"

text \<open>
  The example track after its first \<^verbatim>\<open>start()\<close>, after its second, and a track
  that has no source at all.
\<close>

definition example_playing :: TrackSingle where
  "example_playing = fst (TrackSingle_start example_defaults None None None example_track example_world1)"

definition example_swapped :: TrackSingle where
  "example_swapped = fst (TrackSingle_start example_defaults None None None example_playing example_world1)"

definition example_idle :: TrackSingle where
  "example_idle = example_track\<lparr>loadedSource := None\<rparr>"

subsection \<open>Beat times\<close>

text \<open>
  Modelled from the spec: no code under \<open>src\<close> computes the time at which a beat
  fires (the body of \<^verbatim>\<open>createBeat\<close> is a stub). The specification says: "For
  REPEATING rules, next fire time after \<open>now\<close> is \<open>origin + k * period\<close> for the smallest
  integer \<open>k\<close> with that value \<open>> now\<close>", \<open>k\<close> non-negative.
\<close>

definition repeating_next_fire :: "real \<Rightarrow> real \<Rightarrow> real \<Rightarrow> real" where
  "repeating_next_fire origin period t =
     (if t < origin then origin
      else origin + (of_int \<lfloor>(t - origin) / period\<rfloor> + 1) * period)"


text \<open>
  Two groups. The first is the one that the constructor makes in the example context,
  after \<^verbatim>\<open>newTrack('drums', 'drums.ogg')\<close>, with the context after these two calls. The
  second is the one that the constructor makes there for the name \<^verbatim>\<open>__proto__\<close>, with the
  context after that call.
\<close>

definition example_group :: TrackGroup where
  "example_group =
     (case TrackGroup_new ''music'' 0 1 example_world of
        (g, w) \<Rightarrow> fst (snd (TrackGroup_newTrack ''drums'' (Some ''drums.ogg'') None g w)))"

definition example_world2 :: world where
  "example_world2 =
     (case TrackGroup_new ''music'' 0 1 example_world of
        (g, w) \<Rightarrow> snd (snd (TrackGroup_newTrack ''drums'' (Some ''drums.ogg'') None g w)))"

definition example_proto_group :: TrackGroup where
  "example_proto_group = fst (TrackGroup_new ''__proto__'' 0 1 example_world)"

definition example_world3 :: world where
  "example_world3 = snd (TrackGroup_new ''__proto__'' 0 1 example_world)"

section \<open>What \<open>start\<close> does, case by case\<close>

lemma buildOptions_delay:
  "adj_delay (buildOptions options dflt) =
     (case options_delay options of None \<Rightarrow> adj_delay dflt | Some od \<Rightarrow> od)"
  by (simp add: buildOptions_def options_delay_def split: option.splits)

lemma start_options_delay:
  "adj_delay (startImmediate D) = 0 \<Longrightarrow>
   adj_delay (start_options D dly options) = effective_delay dly options"
  by (simp add: start_options_def effective_delay_def buildOptions_delay Let_def
      split: option.splits)

lemma start_options_eq:
  "adj_delay (startImmediate D) = 0 \<Longrightarrow>
   start_options D dly options =
     (buildOptions options (startImmediate D))\<lparr>adj_delay := effective_delay dly options\<rparr>"
  by (simp add: start_options_def effective_delay_def buildOptions_delay Let_def
      split: option.splits)

lemma start_cloning:
  assumes "playingSource this = Some p" and "loadedSource this = None"
  shows "TrackSingle_start D dly options dur this w =
    (this\<lparr>loadedSource := Some (next_node w), isLoadSourceCalled := True\<rparr>,
     w\<lparr>next_node := Suc (next_node w),
       effects := effects w @ Source_cloned p (next_node w) # swap_effects D dly options dur\<rparr>)"
  using assms
  by (simp add: TrackSingle_start_def start_clone_def start_swaps_def start_swap_def
      AudioSourceNode_clone_def fresh_node_def TrackSingle_swap_def
      TrackSingle_stop_def emit_def effective_delay_def stop_effects_def swap_effects_def
      split: option.splits)

lemma start_swapping:
  assumes "isLoadSourceCalled this" and "loadedSource this = Some l"
  shows "TrackSingle_start D dly options dur this w =
    (this, w\<lparr>effects := effects w @ swap_effects D dly options dur\<rparr>)"
  using assms
  by (simp add: TrackSingle_start_def start_clone_def start_swaps_def start_swap_def
      TrackSingle_swap_def TrackSingle_stop_def emit_def effective_delay_def stop_effects_def
      swap_effects_def split: option.splits)

lemma start_direct:
  assumes "\<not> isLoadSourceCalled this" and "loadedSource this = Some s"
  shows "TrackSingle_start D dly options dur this w =
    (this\<lparr>playingSource := Some s, loadedSource := None, gain := 0\<rparr>,
     w\<lparr>effects := effects w @
         direct_effects D dly options dur s (gainNode this) (gain this) (currentTime w)\<rparr>)"
  using assms
  by (simp add: TrackSingle_start_def start_clone_def start_swaps_def start_loaded_def
      TrackSingle_stop_def emit_def stop_effects_def direct_effects_def Let_def
      split: option.splits)

lemma start_nothing:
  assumes "playingSource this = None" and "loadedSource this = None"
  shows "TrackSingle_start D dly options dur this w =
    (this, w\<lparr>effects := effects w @ [Console_warn No_source_loaded]\<rparr>)"
  using assms
  by (simp add: TrackSingle_start_def start_clone_def start_swaps_def emit_def)

lemma emitted_append [simp]: "emitted w (w\<lparr>effects := effects w @ es\<rparr>) = es"
  by (simp add: emitted_def)

lemma emitted_append' [simp]:
  "emitted w (w\<lparr>next_node := n, effects := effects w @ es\<rparr>) = es"
  by (simp add: emitted_def)

lemma start_emitted_cases:
  "emitted w (snd (TrackSingle_start D dly options dur this w)) =
     (case loadedSource this of
        None \<Rightarrow>
          (case playingSource this of
             None \<Rightarrow> [Console_warn No_source_loaded]
           | Some p \<Rightarrow> Source_cloned p (next_node w) # swap_effects D dly options dur)
      | Some s \<Rightarrow>
          if isLoadSourceCalled this then swap_effects D dly options dur
          else direct_effects D dly options dur s (gainNode this) (gain this) (currentTime w))"
  by (simp add: start_cloning start_swapping start_direct start_nothing split: option.splits)

lemma Source_start_stop_effects [simp]: "Source_start s T \<notin> set (stop_effects t0 dur)"
  by (simp add: stop_effects_def split: option.splits)

lemma Source_start_swap_effects [simp]: "Source_start s T \<notin> set (swap_effects D dly options dur)"
  by (simp add: swap_effects_def)

lemma example_track_eq:
  "example_track =
     \<lparr>name = ''music'', destination = 0, source = 1, gainNode = 2, gain = 1,
      loadedSource = Some 1, playingSource = None, isLoadSourceCalled = False\<rparr>"
  by (simp add: example_track_def TrackSingle_new_def createGain_def fresh_node_def
      example_world_def emit_def)

lemma example_world1_eq:
  "example_world1 =
     \<lparr>currentTime = 10, next_node = 3, effects = [Gain_created 2, Node_connect 2 0]\<rparr>"
  by (simp add: example_world1_def TrackSingle_new_def createGain_def fresh_node_def
      example_world_def emit_def)

section \<open>Properties of \<open>TrackSingle\<close>\<close>

text \<open>
  C1. Whenever \<^verbatim>\<open>TrackSingle.start\<close> schedules the playback of a buffer, it does so at
  the clock time plus the effective delay: \<^verbatim>\<open>options.delay\<close> if present, otherwise the
  positional delay, otherwise 0; the two delays are never added. In particular
  \<^verbatim>\<open>start(5, {delay: 2})\<close> on a track whose staged source is started directly schedules
  it at now + 2. The default \<^verbatim>\<open>startImmediate\<close> is not among the sources; its delay is
  taken to be 0, as its name says.
\<close>

theorem C1_start_delay_precedence:
  assumes "adj_delay (startImmediate D) = 0"
  shows "(\<forall>s T. Source_start s T \<in> set (emitted w (snd (TrackSingle_start D dly options dur this w)))
            \<longrightarrow> T = currentTime w + effective_delay dly options)
       \<and> (\<not> isLoadSourceCalled this \<and> loadedSource this = Some s0 \<longrightarrow>
            Source_start s0 (currentTime w + 2) \<in>
              set (emitted w (snd (TrackSingle_start D (Some 5)
                     (Some \<lparr>ramp = r, delay = Some 2, duration = du, startDelay = sd\<rparr>) dur this w))))"
  using assms
  by (auto simp: start_emitted_cases direct_effects_def start_options_delay effective_delay_def
      options_delay_def split: option.splits if_splits)

theorem C1_witness:
  "adj_delay (startImmediate example_defaults) = 0 \<and>
   Source_start 1 12 \<in>
     set (emitted example_world1
            (snd (TrackSingle_start example_defaults (Some 5) (Some delay_2) None
                    example_track example_world1))) \<and>
   effective_delay (Some 5) (Some delay_2) = 2"
proof -
  have d: "adj_delay (startImmediate example_defaults) = 0"
    by (simp add: example_defaults_def)
  have t: "\<not> isLoadSourceCalled example_track \<and> loadedSource example_track = Some 1"
    by (simp add: example_track_eq)
  have c: "currentTime example_world1 = 10"
    by (simp add: example_world1_eq)
  from C1_start_delay_precedence [OF d, of example_world1 "Some 5" "Some delay_2" None
      example_track 1 None None None] t c
  have m: "Source_start 1 12 \<in>
     set (emitted example_world1
            (snd (TrackSingle_start example_defaults (Some 5) (Some delay_2) None
                    example_track example_world1)))"
    and e: "\<forall>s T. Source_start s T \<in> set (emitted example_world1
            (snd (TrackSingle_start example_defaults (Some 5) (Some delay_2) None
                    example_track example_world1)))
            \<longrightarrow> T = 10 + effective_delay (Some 5) (Some delay_2)"
    by (simp_all add: delay_2_def)
  from e m have "(12::real) = 10 + effective_delay (Some 5) (Some delay_2)"
    by blast
  then have "effective_delay (Some 5) (Some delay_2) = 2" by simp
  with d m show ?thesis by simp
qed

lemma example_playing_eq:
  "example_playing =
     \<lparr>name = ''music'', destination = 0, source = 1, gainNode = 2, gain = 0,
      loadedSource = None, playingSource = Some 1, isLoadSourceCalled = False\<rparr>"
  by (simp add: example_playing_def start_direct [where s = 1] example_track_eq)

lemma example_swapped_eq:
  "example_swapped =
     \<lparr>name = ''music'', destination = 0, source = 1, gainNode = 2, gain = 0,
      loadedSource = Some 3, playingSource = Some 1, isLoadSourceCalled = True\<rparr>"
  by (simp add: example_swapped_def start_cloning [where p = 1] example_playing_eq example_world1_eq)

text \<open>
  C2 as stated fails on a track that has just been constructed: its source is staged
  and nothing is playing, yet \<^verbatim>\<open>start()\<close> neither invokes \<^verbatim>\<open>swap\<close> nor warns; it
  starts the staged source directly. The three cases of the claim leave this one out.
\<close>

theorem C2_counterexample:
  "loadedSource example_track = Some 1 \<and>
   playingSource example_track = None \<and>
   emitted example_world1
     (snd (TrackSingle_start example_defaults None None None example_track example_world1)) =
     [Node_disconnect 1, Node_connect 1 2, Gain_set 2 0, Source_start 1 10,
      Automation 2 1 (startImmediate example_defaults)] \<and>
   \<not> list_ex is_swap_log
     (emitted example_world1
        (snd (TrackSingle_start example_defaults None None None example_track example_world1))) \<and>
   \<not> list_ex is_warning
     (emitted example_world1
        (snd (TrackSingle_start example_defaults None None None example_track example_world1)))"
  by (simp add: start_emitted_cases example_track_eq example_world1_eq direct_effects_def
      stop_effects_def start_options_def buildOptions_def example_defaults_def)

text \<open>
  C2, amended. \<^verbatim>\<open>TrackSingle.start\<close> has four cases, checked in this order.
  (a) A source is playing and none is staged: the playing source is cloned into the
  staged slot, the flag \<^verbatim>\<open>isLoadSourceCalled\<close> is set, and \<^verbatim>\<open>swap\<close> follows as in (b).
  (b) The flag is set and a source is staged: the options are merged with the swap
  defaults, \<^verbatim>\<open>swap\<close> is invoked with them, and when a duration is given \<^verbatim>\<open>stop\<close> is
  called with the effective delay plus the duration.
  (b') A source is staged and the flag is not set: the staged source becomes the playing
  one and its playback is scheduled; \<^verbatim>\<open>swap\<close> is not invoked and nothing is warned.
  (c) Neither a staged nor a playing source: the track is unchanged and one warning is
  written; the call returns.
\<close>

theorem C2_start_four_cases:
  "(playingSource this = Some p \<and> loadedSource this = None \<longrightarrow>
      TrackSingle_start D dly options dur this w =
        (this\<lparr>loadedSource := Some (next_node w), isLoadSourceCalled := True\<rparr>,
         w\<lparr>next_node := Suc (next_node w),
           effects := effects w @
             Source_cloned p (next_node w)
             # Console_log (Stub_swap (Some (Swap_options (buildOptions options (trackSwapDefault D)))))
             # stop_effects (effective_delay dly options) dur\<rparr>))
 \<and> (isLoadSourceCalled this \<and> loadedSource this = Some l \<longrightarrow>
      TrackSingle_start D dly options dur this w =
        (this,
         w\<lparr>effects := effects w @
             Console_log (Stub_swap (Some (Swap_options (buildOptions options (trackSwapDefault D)))))
             # stop_effects (effective_delay dly options) dur\<rparr>))
 \<and> (\<not> isLoadSourceCalled this \<and> loadedSource this = Some s \<longrightarrow>
      TrackSingle_start D dly options dur this w =
        (this\<lparr>playingSource := Some s, loadedSource := None, gain := 0\<rparr>,
         w\<lparr>effects := effects w @
             [Node_disconnect s, Node_connect s (gainNode this), Gain_set (gainNode this) 0,
              Source_start s (currentTime w + adj_delay (start_options D dly options)),
              Automation (gainNode this) (gain this) (start_options D dly options)]
             @ stop_effects (adj_delay (start_options D dly options)) dur\<rparr>) \<and>
      \<not> list_ex is_swap_log (emitted w (snd (TrackSingle_start D dly options dur this w))) \<and>
      \<not> list_ex is_warning (emitted w (snd (TrackSingle_start D dly options dur this w))))
 \<and> (playingSource this = None \<and> loadedSource this = None \<longrightarrow>
      TrackSingle_start D dly options dur this w =
        (this, w\<lparr>effects := effects w @ [Console_warn No_source_loaded]\<rparr>))"
proof (intro conjI impI)
  assume "playingSource this = Some p \<and> loadedSource this = None"
  then show "TrackSingle_start D dly options dur this w =
        (this\<lparr>loadedSource := Some (next_node w), isLoadSourceCalled := True\<rparr>,
         w\<lparr>next_node := Suc (next_node w),
           effects := effects w @
             Source_cloned p (next_node w)
             # Console_log (Stub_swap (Some (Swap_options (buildOptions options (trackSwapDefault D)))))
             # stop_effects (effective_delay dly options) dur\<rparr>)"
    by (simp add: start_cloning swap_effects_def)
next
  assume "isLoadSourceCalled this \<and> loadedSource this = Some l"
  then show "TrackSingle_start D dly options dur this w =
        (this,
         w\<lparr>effects := effects w @
             Console_log (Stub_swap (Some (Swap_options (buildOptions options (trackSwapDefault D)))))
             # stop_effects (effective_delay dly options) dur\<rparr>)"
    by (simp add: start_swapping swap_effects_def)
next
  assume a: "\<not> isLoadSourceCalled this \<and> loadedSource this = Some s"
  then show "TrackSingle_start D dly options dur this w =
        (this\<lparr>playingSource := Some s, loadedSource := None, gain := 0\<rparr>,
         w\<lparr>effects := effects w @
             [Node_disconnect s, Node_connect s (gainNode this), Gain_set (gainNode this) 0,
              Source_start s (currentTime w + adj_delay (start_options D dly options)),
              Automation (gainNode this) (gain this) (start_options D dly options)]
             @ stop_effects (adj_delay (start_options D dly options)) dur\<rparr>)"
    by (simp add: start_direct direct_effects_def)
  from a show "\<not> list_ex is_swap_log (emitted w (snd (TrackSingle_start D dly options dur this w)))"
    by (simp add: start_direct direct_effects_def stop_effects_def split: option.splits)
  from a show "\<not> list_ex is_warning (emitted w (snd (TrackSingle_start D dly options dur this w)))"
    by (simp add: start_direct direct_effects_def stop_effects_def split: option.splits)
next
  assume "playingSource this = None \<and> loadedSource this = None"
  then show "TrackSingle_start D dly options dur this w =
        (this, w\<lparr>effects := effects w @ [Console_warn No_source_loaded]\<rparr>)"
    by (simp add: start_nothing)
qed

theorem C2_witness:
  "TrackSingle_start example_defaults None None (Some 4) example_playing example_world1 =
     (example_swapped,
      example_world1\<lparr>next_node := 4,
        effects := effects example_world1 @
          [Source_cloned 1 3,
           Console_log (Stub_swap (Some (Swap_options (trackSwapDefault example_defaults)))),
           Console_log (Stub_stop (Some 4) None)]\<rparr>)
 \<and> TrackSingle_start example_defaults None None None example_swapped example_world1 =
     (example_swapped,
      example_world1\<lparr>effects := effects example_world1 @
          [Console_log (Stub_swap (Some (Swap_options (trackSwapDefault example_defaults))))]\<rparr>)
 \<and> TrackSingle_start example_defaults None None None example_track example_world1 =
     (example_playing,
      example_world1\<lparr>effects := effects example_world1 @
          [Node_disconnect 1, Node_connect 1 2, Gain_set 2 0, Source_start 1 10,
           Automation 2 1 (startImmediate example_defaults)]\<rparr>)
 \<and> TrackSingle_start example_defaults None None None example_idle example_world1 =
     (example_idle,
      example_world1\<lparr>effects := effects example_world1 @ [Console_warn No_source_loaded]\<rparr>)"
proof -
  have a: "playingSource example_playing = Some 1 \<and> loadedSource example_playing = None"
    by (simp add: example_playing_eq)
  have b: "isLoadSourceCalled example_swapped \<and> loadedSource example_swapped = Some 3"
    by (simp add: example_swapped_eq)
  have c: "\<not> isLoadSourceCalled example_track \<and> loadedSource example_track = Some 1"
    by (simp add: example_track_eq)
  have d: "playingSource example_idle = None \<and> loadedSource example_idle = None"
    by (simp add: example_idle_def example_track_eq)
  have so: "start_options example_defaults None None = startImmediate example_defaults"
    by (simp add: start_options_def buildOptions_def)
  have sw: "buildOptions None (trackSwapDefault example_defaults) = trackSwapDefault example_defaults"
    by (simp add: buildOptions_def)
  have d0: "adj_delay (startImmediate example_defaults) = 0"
    by (simp add: example_defaults_def)
  have ed: "effective_delay None None = 0"
    by (simp add: effective_delay_def options_delay_def)
  note four = C2_start_four_cases [where D = example_defaults and w = example_world1
      and dly = None and options = None]
  from a four [where this = example_playing and p = 1 and dur = "Some 4"]
  have 1: "TrackSingle_start example_defaults None None (Some 4) example_playing example_world1 =
     (example_swapped,
      example_world1\<lparr>next_node := 4,
        effects := effects example_world1 @
          [Source_cloned 1 3,
           Console_log (Stub_swap (Some (Swap_options (trackSwapDefault example_defaults)))),
           Console_log (Stub_stop (Some 4) None)]\<rparr>)"
    by (simp add: sw ed stop_effects_def example_swapped_eq example_playing_eq example_world1_eq)
  from b four [where this = example_swapped and l = 3 and dur = None]
  have 2: "TrackSingle_start example_defaults None None None example_swapped example_world1 =
     (example_swapped,
      example_world1\<lparr>effects := effects example_world1 @
          [Console_log (Stub_swap (Some (Swap_options (trackSwapDefault example_defaults))))]\<rparr>)"
    by (simp add: sw ed stop_effects_def)
  from c four [where this = example_track and s = 1 and dur = None]
  have 3: "TrackSingle_start example_defaults None None None example_track example_world1 =
     (example_playing,
      example_world1\<lparr>effects := effects example_world1 @
          [Node_disconnect 1, Node_connect 1 2, Gain_set 2 0, Source_start 1 10,
           Automation 2 1 (startImmediate example_defaults)]\<rparr>)"
    by (simp add: so d0 stop_effects_def example_track_eq example_playing_eq example_world1_eq)
  from d four [where this = example_idle and dur = None]
  have 4: "TrackSingle_start example_defaults None None None example_idle example_world1 =
     (example_idle,
      example_world1\<lparr>effects := effects example_world1 @ [Console_warn No_source_loaded]\<rparr>)"
    by simp
  from 1 2 3 4 show ?thesis by simp
qed

text \<open>
  C3. When \<^verbatim>\<open>start\<close> starts a staged source directly (a source is staged and the flag
  \<^verbatim>\<open>isLoadSourceCalled\<close> is not set), it does this, in this order: it disconnects the
  source, makes it the playing source and empties the staged slot, connects it to the
  track's gain node, sets the gain to zero, schedules the playback at the clock time plus
  the effective delay, and calls the gain automation with the gain level read before it
  was zeroed and with the merged adjustment. A stop follows when a duration is given.
  The default \<^verbatim>\<open>startImmediate\<close> is not among the sources; its delay is taken to be 0.
\<close>

theorem C3_direct_start_sequence:
  assumes "adj_delay (startImmediate D) = 0"
    and "\<not> isLoadSourceCalled this" and "loadedSource this = Some s"
  shows "TrackSingle_start D dly options dur this w =
    (this\<lparr>playingSource := Some s, loadedSource := None, gain := 0\<rparr>,
     w\<lparr>effects := effects w @
         [Node_disconnect s,
          Node_connect s (gainNode this),
          Gain_set (gainNode this) 0,
          Source_start s (currentTime w + effective_delay dly options),
          Automation (gainNode this) (gain this)
            ((buildOptions options (startImmediate D))\<lparr>adj_delay := effective_delay dly options\<rparr>)]
         @ stop_effects (effective_delay dly options) dur\<rparr>)"
  using assms
  by (simp add: start_direct direct_effects_def start_options_delay start_options_eq)

theorem C3_witness:
  "TrackSingle_start example_defaults (Some 5) (Some delay_2) (Some 4) example_track example_world1 =
     (example_playing,
      example_world1\<lparr>effects := effects example_world1 @
          [Node_disconnect 1, Node_connect 1 2, Gain_set 2 0, Source_start 1 12,
           Automation 2 1 ((startImmediate example_defaults)\<lparr>adj_delay := 2\<rparr>),
           Console_log (Stub_stop (Some 6) None)]\<rparr>)"
proof -
  have d: "adj_delay (startImmediate example_defaults) = 0"
    by (simp add: example_defaults_def)
  have f: "\<not> isLoadSourceCalled example_track"
    by (simp add: example_track_eq)
  have l: "loadedSource example_track = Some 1"
    by (simp add: example_track_eq)
  have e: "effective_delay (Some 5) (Some delay_2) = 2"
    by (simp add: effective_delay_def options_delay_def delay_2_def)
  have b: "buildOptions (Some delay_2) (startImmediate example_defaults) =
      (startImmediate example_defaults)\<lparr>adj_delay := 2\<rparr>"
    by (simp add: buildOptions_def delay_2_def example_defaults_def)
  show ?thesis
    using C3_direct_start_sequence [OF d f l, of "Some 5" "Some delay_2" "Some 4" example_world1]
    by (simp add: e b stop_effects_def example_track_eq example_playing_eq example_world1_eq)
qed

lemma loadSource_eq:
  "TrackSingle_loadSource path this w =
     (next_node w, this,
      w\<lparr>next_node := Suc (next_node w),
        effects := effects w @ [Console_log (Stub_loadSource path), Source_created (next_node w) (gainNode this)]\<rparr>)"
  by (simp add: TrackSingle_loadSource_def AudioSourceNode_new_def fresh_node_def emit_def)

lemma start_history:
  "TrackSingle_start D dly options dur this (w\<lparr>effects := h @ effects w\<rparr>) =
     (case TrackSingle_start D dly options dur this w of
        (this1, w1) \<Rightarrow> (this1, w1\<lparr>effects := h @ effects w1\<rparr>))"
proof (cases "loadedSource this")
  case None
  then show ?thesis
    by (cases "playingSource this") (simp_all add: start_nothing start_cloning)
next
  case (Some s)
  then show ?thesis
    by (cases "isLoadSourceCalled this") (simp_all add: start_swapping start_direct)
qed

text \<open>
  C4. \<^verbatim>\<open>playSource(path, options)\<close> is \<^verbatim>\<open>loadSource(path)\<close> followed by
  \<^verbatim>\<open>start(0, options)\<close>: it returns the node that \<^verbatim>\<open>loadSource\<close> returns, leaves
  the track and the context in the same state, and has the same effects, after the one
  line that \<^verbatim>\<open>playSource\<close> itself writes to the console.
\<close>

theorem C4_playSource_is_loadSource_then_start:
  "TrackSingle_playSource D path options this w =
     (case TrackSingle_loadSource path this w of
        (audioSource, this1, w1) \<Rightarrow>
          (case TrackSingle_start D (Some 0) options None this1 w1 of
             (this2, w2) \<Rightarrow>
               (audioSource, this2,
                w2\<lparr>effects := effects w @ Console_log (Stub_playSource path options) # emitted w w2\<rparr>)))"
proof (cases "loadedSource this")
  case None
  then show ?thesis
    by (cases "playingSource this")
      (simp_all add: TrackSingle_playSource_def loadSource_eq emit_def start_nothing
        start_cloning emitted_def)
next
  case (Some s)
  then show ?thesis
    by (cases "isLoadSourceCalled this")
      (simp_all add: TrackSingle_playSource_def loadSource_eq emit_def start_swapping
        start_direct emitted_def)
qed

theorem C4_witness:
  "TrackSingle_playSource example_defaults ''theme.ogg'' None example_track example_world1 =
     (3, example_playing,
      example_world1\<lparr>next_node := 4,
        effects := effects example_world1 @
          [Console_log (Stub_playSource ''theme.ogg'' None),
           Console_log (Stub_loadSource ''theme.ogg''), Source_created 3 2,
           Node_disconnect 1, Node_connect 1 2, Gain_set 2 0, Source_start 1 10,
           Automation 2 1 (startImmediate example_defaults)]\<rparr>)"
  using C4_playSource_is_loadSource_then_start [of example_defaults "''theme.ogg''" None
      example_track example_world1]
  by (simp add: loadSource_eq start_direct [where s = 1] example_track_eq example_world1_eq
      example_playing_eq direct_effects_def stop_effects_def start_options_def buildOptions_def
      example_defaults_def emitted_def Let_def options_delay_def)

text \<open>
  C5 on the code. \<^verbatim>\<open>loadSource\<close> creates a source that is linked to the track's gain
  node and returns it, and that is all: the track is left as it was, so the new source is
  not staged and the flag \<^verbatim>\<open>isLoadSourceCalled\<close> is not set. On the example track the
  staged source is still the constructor's source 1, not the new source 3, and the path
  is never loaded.
\<close>

theorem C5_loadSource_does_not_stage:
  "TrackSingle_loadSource ''theme.ogg'' example_track example_world1 =
     (3, example_track,
      example_world1\<lparr>next_node := 4,
        effects := effects example_world1 @
          [Console_log (Stub_loadSource ''theme.ogg''), Source_created 3 2]\<rparr>)
 \<and> loadedSource example_track = Some 1
 \<and> \<not> isLoadSourceCalled example_track
 \<and> fst (snd (TrackSingle_loadSource path this w)) = this"
  by (simp add: loadSource_eq example_track_eq example_world1_eq)

text \<open>
  The next fire time of the specification is a time after \<open>t\<close>, it is \<open>origin + k * period\<close>
  for a natural number \<open>k\<close>, and no such time after \<open>t\<close> is earlier.
\<close>

lemma repeating_next_fire_after:
  assumes "0 < period"
  shows "t < repeating_next_fire origin period t"
proof (cases "t < origin")
  case True
  then show ?thesis by (simp add: repeating_next_fire_def)
next
  case False
  have "(t - origin) / period < of_int \<lfloor>(t - origin) / period\<rfloor> + 1"
    by linarith
  with assms have "t - origin < (of_int \<lfloor>(t - origin) / period\<rfloor> + 1) * period"
    by (simp only: pos_divide_less_eq)
  with False show ?thesis by (simp add: repeating_next_fire_def)
qed

lemma repeating_next_fire_least:
  assumes "0 < period" and "t < origin + of_nat k * period"
  shows "repeating_next_fire origin period t \<le> origin + of_nat k * period"
proof (cases "t < origin")
  case True
  with assms show ?thesis by (simp add: repeating_next_fire_def)
next
  case False
  from assms have "t - origin < of_nat k * period" by simp
  with assms have "(t - origin) / period < of_nat k"
    by (simp only: pos_divide_less_eq)
  then have "\<lfloor>(t - origin) / period\<rfloor> < int k"
    by (simp add: floor_less_iff)
  then have "\<lfloor>(t - origin) / period\<rfloor> + 1 \<le> int k" by simp
  then have "(of_int (\<lfloor>(t - origin) / period\<rfloor> + 1) :: real) \<le> of_int (int k)"
    by (simp only: of_int_le_iff)
  then have "(of_int \<lfloor>(t - origin) / period\<rfloor> + 1) * period \<le> of_nat k * period"
    using assms by simp
  with False show ?thesis by (simp add: repeating_next_fire_def)
qed

lemma repeating_next_fire_multiple:
  assumes "0 < period"
  shows "\<exists>k::nat. repeating_next_fire origin period t = origin + of_nat k * period"
proof (cases "t < origin")
  case True
  then have "repeating_next_fire origin period t = origin + of_nat 0 * period"
    by (simp add: repeating_next_fire_def)
  then show ?thesis by blast
next
  case False
  with assms have "0 \<le> (t - origin) / period" by simp
  then have "0 \<le> \<lfloor>(t - origin) / period\<rfloor>" by simp
  then have "of_int \<lfloor>(t - origin) / period\<rfloor> + (1::real) =
      of_nat (nat \<lfloor>(t - origin) / period\<rfloor> + 1)"
    by simp
  with False have "repeating_next_fire origin period t =
      origin + of_nat (nat \<lfloor>(t - origin) / period\<rfloor> + 1) * period"
    by (simp add: repeating_next_fire_def)
  then show ?thesis by blast
qed

text \<open>
  C6 on the code. The handle that \<^verbatim>\<open>createBeat\<close> returns has the time 0, whatever
  the rule and the clock are. For a repeating rule with origin 0 and period 1 created at
  clock time 2.5, the next occurrence of the specification is 3.
\<close>

theorem C6_createBeat_time_is_zero:
  "time (fst (TrackSingle_createBeat REPEATING 0 (Some 1) example_track
            (example_world1\<lparr>currentTime := 5 / 2\<rparr>))) = 0
 \<and> repeating_next_fire 0 1 (5 / 2) = 3
 \<and> time (fst (TrackSingle_createBeat type origin period this w)) = 0"
proof -
  have "\<lfloor>5 / 2 :: real\<rfloor> = 2" by linarith
  then show ?thesis
    by (simp add: TrackSingle_createBeat_def repeating_next_fire_def)
qed

text \<open>
  C7 on the code. The \<^verbatim>\<open>cancel\<close> of a handle that \<^verbatim>\<open>createBeat\<close> returns has an
  empty body: after the call \<^verbatim>\<open>isCancelled\<close> is still false. \<^verbatim>\<open>clearBeats\<close> leaves
  the track as it is and writes one line to the console.
\<close>

theorem C7_cancel_changes_nothing:
  "isCancelled (TrackBeat_cancel (fst (TrackSingle_createBeat REPEATING 0 (Some 1)
       example_track example_world1))) = False
 \<and> TrackBeat_cancel (fst (TrackSingle_createBeat type origin period this w)) =
     fst (TrackSingle_createBeat type origin period this w)
 \<and> fst (TrackSingle_clearBeats this w) = this
 \<and> emitted w (snd (TrackSingle_clearBeats this w)) = [Console_log Stub_clearBeats]"
  by (simp add: TrackSingle_createBeat_def TrackBeat_cancel_def TrackSingle_clearBeats_def
      emit_def emitted_def)

text \<open>
  C10. A track that the constructor has just made holds the constructor's source in the
  staged slot, plays nothing, and its flag \<^verbatim>\<open>isLoadSourceCalled\<close> is false; the first
  \<^verbatim>\<open>start()\<close> on it starts that source directly (disconnect, connect, gain to zero,
  playback scheduled, gain automation). On any track, \<^verbatim>\<open>start()\<close> invokes \<^verbatim>\<open>swap\<close>
  exactly when the flag is set and a source is staged, or a source is playing and none is
  staged (the implicit clone, which sets the flag): a staged source alone is not enough.
\<close>

theorem C10_fresh_track_starts_directly:
  "loadedSource (fst (TrackSingle_new nm dest src w)) = Some src
 \<and> playingSource (fst (TrackSingle_new nm dest src w)) = None
 \<and> \<not> isLoadSourceCalled (fst (TrackSingle_new nm dest src w))
 \<and> (case TrackSingle_new nm dest src w of
      (this, w1) \<Rightarrow>
        TrackSingle_start D dly options dur this w1 =
          (this\<lparr>playingSource := Some src, loadedSource := None, gain := 0\<rparr>,
           w1\<lparr>effects := effects w1 @
               [Node_disconnect src, Node_connect src (gainNode this), Gain_set (gainNode this) 0,
                Source_start src (currentTime w + adj_delay (start_options D dly options)),
                Automation (gainNode this) 1 (start_options D dly options)]
               @ stop_effects (adj_delay (start_options D dly options)) dur\<rparr>))
 \<and> list_ex is_swap_log (emitted w' (snd (TrackSingle_start D dly options dur this' w'))) =
      (isLoadSourceCalled this' \<and> loadedSource this' \<noteq> None \<or>
       playingSource this' \<noteq> None \<and> loadedSource this' = None)"
proof -
  have new: "TrackSingle_new nm dest src w =
      (\<lparr>name = nm, destination = dest, source = src, gainNode = next_node w, gain = 1,
        loadedSource = Some src, playingSource = None, isLoadSourceCalled = False\<rparr>,
       w\<lparr>next_node := Suc (next_node w),
         effects := effects w @ [Gain_created (next_node w), Node_connect (next_node w) dest]\<rparr>)"
    by (simp add: TrackSingle_new_def createGain_def fresh_node_def emit_def)
  have no_swap: "\<not> list_ex is_swap_log (stop_effects t0 dur)" for t0
    by (simp add: stop_effects_def split: option.splits)
  have gate: "list_ex is_swap_log (emitted w' (snd (TrackSingle_start D dly options dur this' w'))) =
      (isLoadSourceCalled this' \<and> loadedSource this' \<noteq> None \<or>
       playingSource this' \<noteq> None \<and> loadedSource this' = None)"
    by (auto simp: start_emitted_cases swap_effects_def direct_effects_def no_swap
        split: option.splits)
  show ?thesis
    by (simp add: new start_direct [where s = src] direct_effects_def gate)
qed

theorem C10_witness:
  "loadedSource example_track = Some 1
 \<and> \<not> isLoadSourceCalled example_track
 \<and> emitted example_world1
      (snd (TrackSingle_start example_defaults None None None example_track example_world1)) =
      [Node_disconnect 1, Node_connect 1 2, Gain_set 2 0, Source_start 1 10,
       Automation 2 1 (startImmediate example_defaults)]
 \<and> \<not> list_ex is_swap_log (emitted example_world1
      (snd (TrackSingle_start example_defaults None None None example_track example_world1)))
 \<and> list_ex is_swap_log (emitted example_world1
      (snd (TrackSingle_start example_defaults None None None example_playing example_world1)))"
proof -
  have so: "start_options example_defaults None None = startImmediate example_defaults"
    by (simp add: start_options_def buildOptions_def)
  have d0: "adj_delay (startImmediate example_defaults) = 0"
    by (simp add: example_defaults_def)
  have w1: "TrackSingle_new ''music'' 0 1 example_world = (example_track, example_world1)"
    by (simp add: example_track_def example_world1_def)
  have c: "currentTime example_world = 10" "gainNode example_track = 2"
    by (simp_all add: example_world_def example_track_eq)
  note inst = C10_fresh_track_starts_directly [of "''music''" 0 1 example_world
      example_defaults None None None example_world1, unfolded w1 fst_conv prod.case]
  from inst [of example_track]
  have 1: "loadedSource example_track = Some 1 \<and> \<not> isLoadSourceCalled example_track"
    and 2: "emitted example_world1
      (snd (TrackSingle_start example_defaults None None None example_track example_world1)) =
      [Node_disconnect 1, Node_connect 1 2, Gain_set 2 0, Source_start 1 10,
       Automation 2 1 (startImmediate example_defaults)]"
    and 3: "\<not> list_ex is_swap_log (emitted example_world1
      (snd (TrackSingle_start example_defaults None None None example_track example_world1)))"
    by (simp_all add: so d0 c stop_effects_def example_track_eq example_world1_eq emitted_def)
  from inst [of example_playing]
  have 4: "list_ex is_swap_log (emitted example_world1
      (snd (TrackSingle_start example_defaults None None None example_playing example_world1)))"
    by (simp add: example_playing_eq)
  from 1 2 3 4 show ?thesis by simp
qed


section \<open>Properties of \<open>TrackGroup\<close>\<close>

lemma TrackSingle_new_eq:
  "TrackSingle_new nm dest src w =
     (\<lparr>name = nm, destination = dest, source = src, gainNode = next_node w, gain = 1,
       loadedSource = Some src, playingSource = None, isLoadSourceCalled = False\<rparr>,
      w\<lparr>next_node := Suc (next_node w),
        effects := effects w @ [Gain_created (next_node w), Node_connect (next_node w) dest]\<rparr>)"
  by (simp add: TrackSingle_new_def createGain_def fresh_node_def emit_def)

lemma not_index_music [simp]: "\<not> is_array_index ''music''" "\<not> is_array_index ''drums''"
  by (simp_all add: is_array_index_def is_digit_def)

lemma index_1 [simp]: "is_array_index ''1''" "is_array_index ''10''" "\<not> is_array_index ''01''"
  "decimal_value ''1'' = 1" "decimal_value ''10'' = 10"
  by (simp_all add: is_array_index_def is_digit_def decimal_value_def)

lemma example_group_eq:
  "example_group =
     \<lparr>group_name = ''music'', group_destination = 0, group_source = 1, group_gainNode = 2,
      tracks =
        \<lparr>own =
           [(''music'', \<lparr>name = ''music'', destination = 2, source = 1, gainNode = 3, gain = 1,
                         loadedSource = Some 1, playingSource = None, isLoadSourceCalled = False\<rparr>),
            (''drums'', \<lparr>name = ''drums'', destination = 2, source = 4, gainNode = 5, gain = 1,
                         loadedSource = Some 4, playingSource = None, isLoadSourceCalled = False\<rparr>)],
         proto = None\<rparr>\<rparr>"
  by (simp add: example_group_def TrackGroup_new_def TrackGroup_newTrack_def TrackSingle_new_eq
      createGain_def AudioSourceNode_new_def fresh_node_def emit_def example_world_def
      dict_assign_def empty_dict_def listed_before_def)

lemma example_world2_eq:
  "example_world2 =
     \<lparr>currentTime = 10, next_node = 6,
      effects = [Gain_created 2, Node_connect 2 0, Gain_created 3, Node_connect 3 2,
                 Source_created 4 2, Source_load 4 ''drums.ogg'',
                 Gain_created 5, Node_connect 5 2]\<rparr>"
  by (simp add: example_world2_def TrackGroup_new_def TrackGroup_newTrack_def TrackSingle_new_eq
      createGain_def AudioSourceNode_new_def fresh_node_def emit_def example_world_def
      dict_assign_def empty_dict_def listed_before_def)

lemma example_proto_group_eq:
  "example_proto_group =
     \<lparr>group_name = ''__proto__'', group_destination = 0, group_source = 1, group_gainNode = 2,
      tracks =
        \<lparr>own = [],
         proto = Some \<lparr>name = ''__proto__'', destination = 2, source = 1, gainNode = 3, gain = 1,
                       loadedSource = Some 1, playingSource = None, isLoadSourceCalled = False\<rparr>\<rparr>\<rparr>"
  by (simp add: example_proto_group_def TrackGroup_new_def TrackSingle_new_eq
      createGain_def fresh_node_def emit_def example_world_def dict_assign_def empty_dict_def)

lemma example_world3_eq:
  "example_world3 =
     \<lparr>currentTime = 10, next_node = 4,
      effects = [Gain_created 2, Node_connect 2 0, Gain_created 3, Node_connect 3 2]\<rparr>"
  by (simp add: example_world3_def TrackGroup_new_def TrackSingle_new_eq
      createGain_def fresh_node_def emit_def example_world_def)

text \<open>
  C8 on the code. The name \<^verbatim>\<open>__proto__\<close> collides with nothing in the example group,
  and \<^verbatim>\<open>newTrack('__proto__', ...)\<close> returns a new track; but the assignment
  \<^verbatim>\<open>this.tracks[name] = track\<close> sets the prototype of the dictionary and adds no
  property, so the keys of the dictionary are as before, and a second
  \<^verbatim>\<open>newTrack('__proto__', ...)\<close> returns another track instead of failing.
\<close>

theorem C8_proto_name_is_not_registered:
  "TrackGroup_newTrack ''__proto__'' None (Some 7) example_group example_world2 =
     (Inr \<lparr>name = ''__proto__'', destination = 2, source = 7, gainNode = 6, gain = 1,
           loadedSource = Some 7, playingSource = None, isLoadSourceCalled = False\<rparr>,
      example_group\<lparr>tracks := (tracks example_group)
        \<lparr>proto := Some \<lparr>name = ''__proto__'', destination = 2, source = 7, gainNode = 6, gain = 1,
              loadedSource = Some 7, playingSource = None, isLoadSourceCalled = False\<rparr>\<rparr>\<rparr>,
      example_world2\<lparr>next_node := 7,
        effects := effects example_world2 @ [Gain_created 6, Node_connect 6 2]\<rparr>)
 \<and> map fst (own (tracks (fst (snd
       (TrackGroup_newTrack ''__proto__'' None (Some 7) example_group example_world2))))) =
     [''music'', ''drums'']
 \<and> (case TrackGroup_newTrack ''__proto__'' None (Some 7) example_group example_world2 of
      (r1, g1, w1) \<Rightarrow>
        fst (TrackGroup_newTrack ''__proto__'' None (Some 8) g1 w1) =
          Inr \<lparr>name = ''__proto__'', destination = 2, source = 8, gainNode = 7, gain = 1,
               loadedSource = Some 8, playingSource = None, isLoadSourceCalled = False\<rparr>)"
  by (simp add: TrackGroup_newTrack_def TrackSingle_new_eq dict_assign_def example_group_eq
      example_world2_eq)

text \<open>
  C9 on the code. In a group whose name is \<^verbatim>\<open>__proto__\<close> the same assignment, in the
  constructor, makes the primary track the prototype of the dictionary: \<^verbatim>\<open>primaryTrack()\<close>
  finds it, but it is not an own property, and the loops of \<^verbatim>\<open>start\<close> and \<^verbatim>\<open>stop\<close>
  do not reach it. \<^verbatim>\<open>start()\<close> on the new group throws and leaves the primary track as
  it was, its source staged and not playing; nothing has been done on the audio graph.
\<close>

theorem C9_proto_group_start_misses_primary:
  "primaryTrack example_proto_group =
     Track_value \<lparr>name = ''__proto__'', destination = 2, source = 1, gainNode = 3, gain = 1,
                  loadedSource = Some 1, playingSource = None, isLoadSourceCalled = False\<rparr>
 \<and> own (tracks example_proto_group) = []
 \<and> TrackGroup_start example_defaults None None None example_proto_group example_world3 =
     (Inl TypeError, example_proto_group, example_world3)
 \<and> TrackGroup_stop None None example_proto_group example_world3 =
     (Inl TypeError, example_proto_group, example_world3)"
  by (simp add: primaryTrack_def get_property_def TrackGroup_start_def TrackGroup_stop_def
      for_each_track_def example_proto_group_eq)

subsection \<open>New tracks under other names\<close>

text \<open>
  A new own property is among the keys, holds its value, and leaves the other properties
  as they were; a name that is not an array index goes to the end.
\<close>

lemma insert_key_keys: "set (map fst (insert_key k v kvs)) = insert k (set (map fst kvs))"
proof (induction kvs)
  case Nil
  show ?case by simp
next
  case (Cons kv kvs)
  obtain k' v' where kv: "kv = (k', v')" by (cases kv)
  show ?case
  proof (cases "listed_before k k'")
    case True
    then show ?thesis by (simp add: kv)
  next
    case False
    with Cons.IH show ?thesis by (simp add: kv insert_commute)
  qed
qed

lemma map_of_insert_key:
  "k \<notin> set (map fst kvs) \<Longrightarrow> map_of (insert_key k v kvs) = (map_of kvs)(k \<mapsto> v)"
proof (induction kvs)
  case Nil
  show ?case by simp
next
  case (Cons kv kvs)
  obtain k' v' where kv: "kv = (k', v')" by (cases kv)
  from Cons.prems have ne: "k' \<noteq> k" and notin: "k \<notin> set (map fst kvs)"
    by (auto simp: kv)
  show ?case
  proof (cases "listed_before k k'")
    case True
    then show ?thesis by (auto simp: kv fun_eq_iff)
  next
    case False
    with Cons.IH [OF notin] ne show ?thesis
      by (auto simp: kv fun_eq_iff)
  qed
qed

lemma insert_key_last: "\<not> is_array_index k \<Longrightarrow> insert_key k v kvs = kvs @ [(k, v)]"
proof (induction kvs)
  case Nil
  show ?case by simp
next
  case (Cons kv kvs)
  obtain k' v' where kv: "kv = (k', v')" by (cases kv)
  from Cons show ?case by (simp add: kv listed_before_def)
qed

text \<open>
  \<^verbatim>\<open>newTrack\<close> throws, and changes nothing, when the name is the group's own or a key of
  the dictionary. For a name that is neither, and is not \<^verbatim>\<open>__proto__\<close> (nor \<^verbatim>\<open>_time\<close>
  once the prototype is a track), it returns a new track of that name, which the
  dictionary then holds under that name, beside the properties that it had. A name that is
  an array index is listed before the others.
\<close>

lemma newTrack_collision:
  assumes "nm = group_name this \<or> nm \<in> set (map fst (own (tracks this)))"
  shows "\<exists>e. TrackGroup_newTrack nm path src this w = (Inl e, this, w)"
  using assms by (auto simp: TrackGroup_newTrack_def)

lemma newTrack_registers:
  assumes "nm \<noteq> group_name this" and "nm \<notin> set (map fst (own (tracks this)))"
    and "nm \<noteq> ''__proto__''" and "nm \<noteq> ''_time'' \<or> proto (tracks this) = None"
  shows "\<exists>t this1 w1.
     TrackGroup_newTrack nm path src this w = (Inr t, this1, w1) \<and>
     name t = nm \<and>
     track nm this1 = Track_value t \<and>
     map_of (own (tracks this1)) nm = Some t \<and>
     set (map fst (own (tracks this1))) = insert nm (set (map fst (own (tracks this)))) \<and>
     (\<forall>n. n \<noteq> nm \<longrightarrow> map_of (own (tracks this1)) n = map_of (own (tracks this)) n) \<and>
     proto (tracks this1) = proto (tracks this) \<and>
     group_name this1 = group_name this"
proof -
  obtain s w2 where sw:
    "(case src of
        Some s \<Rightarrow> (s, w)
      | None \<Rightarrow>
          (case AudioSourceNode_new (group_gainNode this) w of
             (s, w1) \<Rightarrow>
               (case path of
                  None \<Rightarrow> (s, w1)
                | Some p \<Rightarrow> if p = [] then (s, w1) else (s, emit (Source_load s p) w1)))) = (s, w2)"
    by (cases "(case src of
        Some s \<Rightarrow> (s, w)
      | None \<Rightarrow>
          (case AudioSourceNode_new (group_gainNode this) w of
             (s, w1) \<Rightarrow>
               (case path of
                  None \<Rightarrow> (s, w1)
                | Some p \<Rightarrow> if p = [] then (s, w1) else (s, emit (Source_load s p) w1))))")
  define t where "t = fst (TrackSingle_new nm (group_gainNode this) s w2)"
  define w3 where "w3 = snd (TrackSingle_new nm (group_gainNode this) s w2)"
  have new: "TrackSingle_new nm (group_gainNode this) s w2 = (t, w3)"
    by (simp add: t_def w3_def)
  have nm: "name t = nm"
    by (simp add: t_def TrackSingle_new_eq)
  from assms have d: "dict_assign nm t (tracks this) =
      Inr ((tracks this)\<lparr>own := insert_key nm t (own (tracks this))\<rparr>)"
    by (auto simp: dict_assign_def)
  from assms(1,2) have r: "TrackGroup_newTrack nm path src this w =
      (Inr t, this\<lparr>tracks := (tracks this)\<lparr>own := insert_key nm t (own (tracks this))\<rparr>\<rparr>, w3)"
    by (simp add: TrackGroup_newTrack_def sw new d)
  from assms(2) have m: "map_of (insert_key nm t (own (tracks this))) =
      (map_of (own (tracks this)))(nm \<mapsto> t)"
    by (rule map_of_insert_key)
  show ?thesis
    by (intro exI conjI, rule r)
      (simp_all add: nm track_def get_property_def m insert_key_keys [simplified])
qed

lemma newTrack_index_name_is_listed_first:
  "map fst (own (tracks (fst (snd
     (TrackGroup_newTrack ''1'' None (Some 7) example_group example_world2))))) =
   [''1'', ''music'', ''drums'']"
  by (simp add: TrackGroup_newTrack_def TrackSingle_new_eq dict_assign_def example_group_eq
      listed_before_def)

subsection \<open>The loop over the tracks\<close>

text \<open>
  The methods \<^verbatim>\<open>stop\<close>, \<^verbatim>\<open>clearBeats\<close>, \<^verbatim>\<open>syncPlayTo\<close> and \<^verbatim>\<open>syncStopTo\<close> of a
  group leave the group as it is and write one line for each own property of the
  dictionary, since the bodies of these methods in \<open>TrackSingle\<close> write one line; they
  throw after that when the prototype is a track. \<^verbatim>\<open>start\<close> leaves each of these tracks
  in a state that its own \<^verbatim>\<open>start\<close> leaves it in; in the example group it starts the
  two tracks directly, one after the other.
\<close>

lemma visit_own_logging:
  assumes "\<And>t w0. m t w0 = (t, emit e w0)"
  shows "visit_own m ts w = (ts, w\<lparr>effects := effects w @ replicate (length ts) e\<rparr>)"
proof (induction ts arbitrary: w)
  case Nil
  show ?case by simp
next
  case (Cons nt ts)
  obtain n t where nt: "nt = (n, t)" by (cases nt)
  have m: "m t w = (t, emit e w)" by (rule assms)
  have r: "visit_own m ts (emit e w) =
      (ts, (emit e w)\<lparr>effects := effects (emit e w) @ replicate (length ts) e\<rparr>)"
    by (rule Cons.IH)
  show ?case
    by (simp only: nt visit_own.simps m r prod.case) (simp add: emit_def replicate_app_Cons_same)
qed

lemma visit_own_members:
  "list_all2 (\<lambda>(n, t) (n', t'). n' = n \<and> (\<exists>w0. t' = fst (m t w0))) ts (fst (visit_own m ts w))"
proof (induction ts arbitrary: w)
  case Nil
  show ?case by simp
next
  case (Cons nt ts)
  obtain n t where nt: "nt = (n, t)" by (cases nt)
  obtain t1 w1 where m: "m t w = (t1, w1)" by (cases "m t w")
  obtain ts1 w2 where r: "visit_own m ts w1 = (ts1, w2)" by (cases "visit_own m ts w1")
  from m have "\<exists>w0. t1 = fst (m t w0)" by (metis fst_conv)
  with Cons.IH [of w1] r show ?case by (simp add: nt m r)
qed

lemma group_stop_eq:
  "TrackGroup_stop dly options this w =
     (case proto (tracks this) of None \<Rightarrow> Inr () | Some p \<Rightarrow> Inl TypeError, this,
      w\<lparr>effects := effects w @
          replicate (length (own (tracks this))) (Console_log (Stub_stop dly options))\<rparr>)"
proof -
  have "visit_own (TrackSingle_stop dly options) (own (tracks this)) w =
      (own (tracks this),
       w\<lparr>effects := effects w @
           replicate (length (own (tracks this))) (Console_log (Stub_stop dly options))\<rparr>)"
    by (rule visit_own_logging) (simp add: TrackSingle_stop_def)
  then show ?thesis
    by (simp add: TrackGroup_stop_def for_each_track_def split: option.splits)
qed

lemma group_clearBeats_eq:
  "TrackGroup_clearBeats this w =
     (case proto (tracks this) of None \<Rightarrow> Inr () | Some p \<Rightarrow> Inl TypeError, this,
      w\<lparr>effects := effects w @
          replicate (length (own (tracks this))) (Console_log Stub_clearBeats)\<rparr>)"
proof -
  have "visit_own TrackSingle_clearBeats (own (tracks this)) w =
      (own (tracks this),
       w\<lparr>effects := effects w @
           replicate (length (own (tracks this))) (Console_log Stub_clearBeats)\<rparr>)"
    by (rule visit_own_logging) (simp add: TrackSingle_clearBeats_def)
  then show ?thesis
    by (simp add: TrackGroup_clearBeats_def for_each_track_def split: option.splits)
qed

lemma group_syncPlayTo_eq:
  "TrackGroup_syncPlayTo target options this w =
     (case proto (tracks this) of None \<Rightarrow> Inr () | Some p \<Rightarrow> Inl TypeError, this,
      w\<lparr>effects := effects w @
          replicate (length (own (tracks this))) (Console_log (Stub_syncPlayTo target options))\<rparr>)"
proof -
  have "visit_own (TrackSingle_syncPlayTo target options) (own (tracks this)) w =
      (own (tracks this),
       w\<lparr>effects := effects w @
           replicate (length (own (tracks this))) (Console_log (Stub_syncPlayTo target options))\<rparr>)"
    by (rule visit_own_logging) (simp add: TrackSingle_syncPlayTo_def)
  then show ?thesis
    by (simp add: TrackGroup_syncPlayTo_def for_each_track_def split: option.splits)
qed

lemma group_syncStopTo_eq:
  "TrackGroup_syncStopTo target options this w =
     (case proto (tracks this) of None \<Rightarrow> Inr () | Some p \<Rightarrow> Inl TypeError, this,
      w\<lparr>effects := effects w @
          replicate (length (own (tracks this))) (Console_log (Stub_syncStopTo target options))\<rparr>)"
proof -
  have "visit_own (TrackSingle_syncStopTo target options) (own (tracks this)) w =
      (own (tracks this),
       w\<lparr>effects := effects w @
           replicate (length (own (tracks this))) (Console_log (Stub_syncStopTo target options))\<rparr>)"
    by (rule visit_own_logging) (simp add: TrackSingle_syncStopTo_def)
  then show ?thesis
    by (simp add: TrackGroup_syncStopTo_def for_each_track_def split: option.splits)
qed

lemma group_start_members:
  "list_all2 (\<lambda>(n, t) (n', t'). n' = n \<and> (\<exists>w0. t' = fst (TrackSingle_start D dly options dur t w0)))
     (own (tracks this)) (own (tracks (fst (snd (TrackGroup_start D dly options dur this w)))))"
proof -
  have "list_all2
      (\<lambda>(n, t) (n', t'). n' = n \<and> (\<exists>w0. t' = fst (TrackSingle_start D dly options dur t w0)))
      (own (tracks this))
      (fst (visit_own (TrackSingle_start D dly options dur) (own (tracks this)) w))"
    by (rule visit_own_members)
  then show ?thesis
    by (simp add: TrackGroup_start_def for_each_track_def case_prod_beta split: option.splits)
qed

lemma example_group_start:
  "TrackGroup_start example_defaults None None None example_group example_world2 =
     (Inr (),
      example_group\<lparr>tracks :=
        \<lparr>own =
           [(''music'', \<lparr>name = ''music'', destination = 2, source = 1, gainNode = 3, gain = 0,
                         loadedSource = None, playingSource = Some 1, isLoadSourceCalled = False\<rparr>),
            (''drums'', \<lparr>name = ''drums'', destination = 2, source = 4, gainNode = 5, gain = 0,
                         loadedSource = None, playingSource = Some 4, isLoadSourceCalled = False\<rparr>)],
         proto = None\<rparr>\<rparr>,
      example_world2\<lparr>effects := effects example_world2 @
        [Node_disconnect 1, Node_connect 1 3, Gain_set 3 0, Source_start 1 10,
         Automation 3 1 (startImmediate example_defaults),
         Node_disconnect 4, Node_connect 4 5, Gain_set 5 0, Source_start 4 10,
         Automation 5 1 (startImmediate example_defaults)]\<rparr>)"
proof -
  have so: "start_options example_defaults None None = startImmediate example_defaults"
    by (simp add: start_options_def buildOptions_def)
  have d0: "adj_delay (startImmediate example_defaults) = 0"
    by (simp add: example_defaults_def)
  show ?thesis
    by (simp add: TrackGroup_start_def for_each_track_def example_group_eq example_world2_eq
        start_direct direct_effects_def stop_effects_def so d0)
qed

subsection \<open>The methods that act on the primary track\<close>

text \<open>
  The primary track of a group that the constructor has made is the track that the
  constructor has made. When \<^verbatim>\<open>primaryTrack()\<close> is a track, each of \<^verbatim>\<open>swap\<close>,
  \<^verbatim>\<open>loadSource\<close>, \<^verbatim>\<open>playSource\<close>, \<^verbatim>\<open>createBeat\<close> and \<^verbatim>\<open>listenFor\<close> does on the
  group what the method of that name does on that track, and nothing else: the other
  properties of the dictionary are as before.
\<close>

lemma TrackGroup_new_primary:
  "primaryTrack (fst (TrackGroup_new nm dest src w)) =
     Track_value \<lparr>name = nm, destination = next_node w, source = src,
                  gainNode = Suc (next_node w), gain = 1, loadedSource = Some src,
                  playingSource = None, isLoadSourceCalled = False\<rparr>"
  by (simp add: TrackGroup_new_def TrackSingle_new_eq createGain_def fresh_node_def emit_def
      primaryTrack_def get_property_def dict_assign_def empty_dict_def)

lemma group_delegated_eq:
  assumes "primaryTrack this = Track_value t"
  shows "TrackGroup_swap sw this w =
           (Inr t, this\<lparr>tracks := dict_replace (group_name this) t (tracks this)\<rparr>,
            w\<lparr>effects := effects w @ [Console_log (Stub_swap sw)]\<rparr>)"
    and "TrackGroup_loadSource path this w =
           (Inr (next_node w), this\<lparr>tracks := dict_replace (group_name this) t (tracks this)\<rparr>,
            w\<lparr>next_node := Suc (next_node w),
              effects := effects w @
                [Console_log (Stub_loadSource path), Source_created (next_node w) (gainNode t)]\<rparr>)"
    and "TrackGroup_playSource D path options this w =
           (Inr (fst (TrackSingle_playSource D path options t w)),
            this\<lparr>tracks := dict_replace (group_name this)
                    (fst (snd (TrackSingle_playSource D path options t w))) (tracks this)\<rparr>,
            snd (snd (TrackSingle_playSource D path options t w)))"
    and "TrackGroup_createBeat type origin period this w =
           (Inr \<lparr>time = 0, isCancelled = False, cancel = (\<lambda>fields. fields)\<rparr>,
            this\<lparr>tracks := dict_replace (group_name this) t (tracks this)\<rparr>,
            w\<lparr>effects := effects w @ [Console_log (Stub_createBeat type origin period)]\<rparr>)"
    and "TrackGroup_listenFor ev cb this w =
           (Inr (), this\<lparr>tracks := dict_replace (group_name this) t (tracks this)\<rparr>,
            w\<lparr>effects := effects w @ [Console_log (Stub_listenFor ev cb)]\<rparr>)"
  using assms
  by (simp_all add: TrackGroup_swap_def TrackGroup_loadSource_def TrackGroup_playSource_def
      TrackGroup_createBeat_def TrackGroup_listenFor_def TrackSingle_swap_def loadSource_eq
      TrackSingle_createBeat_def TrackSingle_listenFor_def emit_def case_prod_beta)

lemma dict_replace_others:
  "n \<noteq> k \<Longrightarrow> map_of (own (dict_replace k v d)) n = map_of (own d) n"
  by (simp add: dict_replace_def update_conv' split: option.splits)

lemma dict_replace_same:
  assumes "get_property k d = Track_value t"
  shows "dict_replace k t d = d"
proof (cases "map_of (own d) k")
  case (Some t')
  with assms have "t' = t" by (simp add: get_property_def)
  with Some have m: "map_of (own d) k = Some t" by simp
  then have "k \<in> set (map fst (own d))"
    by (metis map_of_eq_None_iff option.distinct(1) set_map)
  with m show ?thesis by (simp add: dict_replace_def update_triv)
next
  case None
  then have notin: "k \<notin> set (map fst (own d))"
    by (simp add: map_of_eq_None_iff)
  from assms None have "k = ''__proto__'' \<and> proto d = Some t"
    by (auto simp: get_property_def inherited_from_track_def split: option.splits if_splits)
  with notin show ?thesis by (simp add: dict_replace_def)
qed

end
